theory Spec2Isabelle
  imports Main "HOL-Library.Multiset"
begin

section \<open>Data model of src/server/models/comments.js\<close>

text \<open>
  The Comment model class of the wiki: the objection.js model of the comments table, its
  insert/update hooks, the three lifecycle operations (postNewComment, updateComment,
  deleteComment) and the two side effects (indexComments, sendNotify).

  JavaScript values are modelled as follows. A string is a \<open>string\<close>; a value that may
  be undefined or null is an \<open>option\<close>; a thrown error (a rejected promise) is the
  \<open>Inl\<close> of a sum; every operation takes the state of the stores it touches and returns
  the new one, also when it fails, so that what a failing call leaves behind is visible.
\<close>

datatype json = JNull | JBool bool | JNum int | JStr string | JArr "json list"

text \<open>A row of the comments table (jsonSchema, lines 13-29, and the two relation columns).
  A timestamp is the instant, in milliseconds, that the stored string denotes: the strings
  \<open>toISOString\<close> gives for the years 0000 to 9999 have one length and one format, and
  order as their instants do.\<close>

record comment =
  c_id :: int
  c_pageId :: int
  c_replyTo :: int
  c_content :: string
  c_render :: string
  c_authorId :: int
  c_name :: "string option"
  c_email :: "string option"
  c_ip :: string
  c_createdAt :: nat
  c_updatedAt :: nat

text \<open>A row of the pages table, as far as this file reads it. \<open>page_extra\<close> is the JSON
  object of the extra column, a dictionary from field names to JSON values.\<close>

record page =
  page_id :: int
  page_path :: string
  page_localeCode :: string
  page_title :: string
  page_extra :: "string \<rightharpoonup> json"
  page_render :: string

text \<open>updPage with its safeContent property (lines 233-235), as handed to the search engine.\<close>

record indexed_page = page +
  safeContent :: string

text \<open>The user object of a request: its id (2 is the guest account), name and email, and
  the groups WIKI.auth.checkAccess decides on.\<close>

record user =
  user_id :: int
  user_name :: "string option"
  user_email :: "string option"
  user_groups :: "int list"

text \<open>The object literals \<open>{ ...user, ip }\<close> (lines 127-134, 164-167, 196-199).\<close>

record author = user +
  author_ip :: string

text \<open>emailOpts of sendNotify (lines 260-272). The title of line 266 starts with the author
  as the template prints it (an absent author prints as the word undefined or null):
  \<open>mail_title_author\<close> is that author, \<open>mail_title\<close> the text that follows it.\<close>

record mail =
  mail_template :: string
  mail_to :: "string option list"
  mail_subject :: string
  mail_preheadertext :: string
  mail_title_author :: "string option"
  mail_title :: string
  mail_content :: string
  mail_buttonLink :: string
  mail_buttonText :: string
  mail_textFallback :: string

datatype error =
    InputInvalid string
  | CommentContentMissing
  | CommentPostForbidden
  | CommentManageForbidden
  | PageNotFound
  | CommentNotFound
  | TypeError
  | Rejected string

text \<open>The stores: the comments and pages tables (lists of rows in the order the database
  scans them), the documents pushed to the search engine, the mails handed to the mailer, the
  logger's lines (level, message), and the clock: the instant \<open>new Date()\<close> returns,
  and the time that passes before a hook reads the clock a second time (0 when both readings
  fall into the same millisecond).\<close>

record wiki =
  comments :: "comment list"
  pages :: "page list"
  searchIndex :: "indexed_page list"
  outbox :: "mail list"
  logs :: "(string \<times> string) list"
  clock :: nat
  clock_lag :: nat

text \<open>The collaborators that are not part of this file, taken as parameters:
  WIKI.auth.checkAccess (user, permissions, path, locale), the PATTERN of validate.js's email
  validator, WIKI.models.pages.cleanHTML, the outcome of WIKI.data.searchEngine.updated
  (\<open>None\<close> when the promise resolves, the error when it rejects), the comment renderer,
  WIKI.config.host and process.env.NOTIFY_EMAIL.\<close>

record env =
  checkAccess :: "user \<Rightarrow> string list \<Rightarrow> string \<Rightarrow> string \<Rightarrow> bool"
  email_PATTERN :: "string \<Rightarrow> bool"
  cleanHTML :: "string \<Rightarrow> string"
  searchEngine_updated :: "indexed_page \<Rightarrow> error option"
  renderComment :: "string \<Rightarrow> string"
  config_host :: string
  NOTIFY_EMAIL :: "string option"

text \<open>The arguments of WIKI.data.commentProvider.create / update / remove
  (lines 123-135, 160-168, 193-200).\<close>

record create_req =
  cr_page :: page
  cr_replyTo :: int
  cr_content :: string
  cr_user :: author

record update_req =
  up_id :: int
  up_content :: string
  up_page :: page
  up_user :: author

record remove_req =
  rm_id :: int
  rm_page :: page
  rm_user :: author

text \<open>WIKI.data.commentProvider: the pluggable storage provider the operations delegate to.\<close>

record provider =
  prov_create :: "create_req \<Rightarrow> wiki \<Rightarrow> (error + comment) \<times> wiki"
  prov_update :: "update_req \<Rightarrow> wiki \<Rightarrow> (error + comment) \<times> wiki"
  prov_remove :: "remove_req \<Rightarrow> wiki \<Rightarrow> (error + unit) \<times> wiki"
  prov_getPageIdFromCommentId :: "int \<Rightarrow> wiki \<Rightarrow> int option"

section \<open>Library functions the file calls\<close>

text \<open>lodash's whitespace, for code units below 256: tab, line feed, vertical tab, form feed,
  carriage return, space and no-break space. The \<open>\s\<close> of JavaScript regular expressions
  is the same set.\<close>

definition is_whitespace :: "char \<Rightarrow> bool" where
  "is_whitespace c = (of_char c \<in> {9, 10, 11, 12, 13, 32, 160 :: nat})"

text \<open>\<open>_.trim\<close>: leading and trailing whitespace removed.\<close>

definition trim :: "string \<Rightarrow> string" where
  "trim s = rev (dropWhile is_whitespace (rev (dropWhile is_whitespace s)))"

text \<open>The lower case of a code unit below 256: the letters A to Z, and the capital letters
  of Latin-1 (0xC0 to 0xDE without the multiplication sign 0xD7), are 32 below their lower
  case.\<close>

definition lower_char :: "char \<Rightarrow> char" where
  "lower_char c =
     (if (65 \<le> (of_char c :: nat) \<and> (of_char c :: nat) \<le> 90) \<or>
         (192 \<le> (of_char c :: nat) \<and> (of_char c :: nat) \<le> 222 \<and> (of_char c :: nat) \<noteq> 215)
      then char_of ((of_char c :: nat) + 32) else c)"

text \<open>\<open>_.toLower\<close>: undefined and null become the empty string.\<close>

definition toLower :: "string option \<Rightarrow> string" where
  "toLower v = (case v of None \<Rightarrow> [] | Some s \<Rightarrow> map lower_char s)"

text \<open>validate.js, \<open>v.isEmpty\<close> on undefined, null and strings: a string is empty when it
  holds whitespace only.\<close>

definition isEmpty :: "string option \<Rightarrow> bool" where
  "isEmpty v = (case v of None \<Rightarrow> True | Some s \<Rightarrow> list_all is_whitespace s)"

text \<open>The constraints of lines 82-96 under validate.js with \<open>format: 'flat'\<close>: attributes
  in the order the constraints object lists them (email, then name), each attribute's validators
  in their order, every message prefixed with the capitalised attribute name.
  The email attribute is always a string here (the result of \<open>_.toLower\<close>).\<close>

definition validate_email :: "env \<Rightarrow> string \<Rightarrow> string list" where
  "validate_email e v =
     (if email_PATTERN e v then [] else [''Email is not a valid email'']) @
     (if 255 < length v then [''Email is too long (maximum is 255 characters)''] else [])"

definition validate_name :: "string option \<Rightarrow> string list" where
  "validate_name v =
     (if isEmpty v then [''Name can't be blank''] else []) @
     (case v of
        None \<Rightarrow> []
      | Some s \<Rightarrow>
          (if length s < 2 then [''Name is too short (minimum is 2 characters)''] else []) @
          (if 255 < length s then [''Name is too long (maximum is 255 characters)''] else []))"

definition validate_guest :: "env \<Rightarrow> string \<Rightarrow> string option \<Rightarrow> string list" where
  "validate_guest e email_v name_v = validate_email e email_v @ validate_name name_v"

section \<open>Queries on the tables\<close>

text \<open>Modelled from the spec: the page store (server/models/pages.js is not under src/).
  \<open>PageStore.getById(pageId) \<rightarrow> Page | absent\<close>: the first row of the pages table
  with that id. getPageFromDb and query().findById are both this lookup.\<close>

definition findById :: "page list \<Rightarrow> int \<Rightarrow> page option" where
  "findById ps pid = find (\<lambda>p. page_id p = pid) ps"

definition getPageFromDb :: "wiki \<Rightarrow> int \<Rightarrow> page option" where
  "getPageFromDb st pid = findById (pages st) pid"

text \<open>\<open>pages.query().patch({ extra: ... }).where('id', pid)\<close> (lines 225-230): the extra
  column of every row with that id is overwritten. The bag is written as JSON text and parsed
  when read back; the model keeps the bag itself.\<close>

definition patch_extra :: "int \<Rightarrow> (string \<rightharpoonup> json) \<Rightarrow> page list \<Rightarrow> page list" where
  "patch_extra pid ex ps = map (\<lambda>p. if page_id p = pid then p\<lparr>page_extra := ex\<rparr> else p) ps"

text \<open>\<open>.orderBy('createdAt', 'desc')\<close> (line 216): rows by creation time, latest first.
  The query names no second column, so the order of rows with equal creation times is the
  database's choice. The model takes the order in which the table holds them (an insertion
  sort that keeps that order among equals), the same on every run.\<close>

fun insert_desc :: "comment \<Rightarrow> comment list \<Rightarrow> comment list" where
  "insert_desc c [] = [c]"
| "insert_desc c (d # ds) =
     (if c_createdAt d \<le> c_createdAt c then c # d # ds else d # insert_desc c ds)"

fun orderBy_createdAt_desc :: "comment list \<Rightarrow> comment list" where
  "orderBy_createdAt_desc [] = []"
| "orderBy_createdAt_desc (c # cs) = insert_desc c (orderBy_createdAt_desc cs)"

text \<open>\<open>comments.query().where('pageId', pageId).orderBy('createdAt', 'desc')\<close>
  (lines 214-216).\<close>

definition existingComments :: "wiki \<Rightarrow> int \<Rightarrow> comment list" where
  "existingComments st pid = orderBy_createdAt_desc (filter (\<lambda>c. c_pageId c = pid) (comments st))"

text \<open>The test \<open>if (existingComments)\<close> of line 217 is JavaScript's truthiness of the
  query's result, an array: every array is truthy, the empty one too.\<close>

definition truthy_array :: "'a list \<Rightarrow> bool" where
  "truthy_array xs = True"

section \<open>The side effects\<close>

text \<open>indexComments (lines 212-242). \<open>page.extra\<close> of a page that findById did not find
  is a TypeError, raised before anything is written. The patch stays when the search engine
  rejects afterwards.\<close>

definition indexComments :: "env \<Rightarrow> int \<Rightarrow> wiki \<Rightarrow> (error + unit) \<times> wiki" where
  "indexComments e pageId st =
     (let existing = existingComments st pageId in
      if truthy_array existing then
        (case findById (pages st) pageId of
           None \<Rightarrow> (Inl TypeError, st)
         | Some pg \<Rightarrow>
             (let cArray = map c_content existing;
                  st1 = st\<lparr>pages := patch_extra (page_id pg)
                           ((page_extra pg)(''comment'' \<mapsto> JArr (map JStr cArray))) (pages st)\<rparr>
              in case findById (pages st1) (page_id pg) of
                   None \<Rightarrow> (Inl TypeError, st1)
                 | Some updPage \<Rightarrow>
                     (let doc = page.extend updPage
                                  \<lparr>safeContent = cleanHTML e (page_render updPage)\<rparr>
                      in case searchEngine_updated e doc of
                           Some err \<Rightarrow> (Inl err, st1)
                         | None \<Rightarrow> (Inr (), st1\<lparr>searchIndex := searchIndex st1 @ [doc]\<rparr>))))
      else (Inr (), st\<lparr>logs := logs st @ [(''info'', ''No comments to index on this page.'')]\<rparr>))"

text \<open>sendNotify (lines 251-274). \<open>WIKI.mail.send(emailOpts)\<close> is not awaited: the mail is
  handed to the mailer and whatever becomes of it is not observed by this function.\<close>

definition sendNotify ::
  "env \<Rightarrow> int \<Rightarrow> string \<Rightarrow> string option \<Rightarrow> wiki \<Rightarrow> (error + unit) \<times> wiki" where
  "sendNotify e pageId content author_email st =
     (case findById (pages st) pageId of
        None \<Rightarrow> (Inl TypeError, st)
      | Some pg \<Rightarrow>
          (let pageLink = config_host e @ ''/'' @ page_localeCode pg @ ''/'' @ page_path pg;
               pageRef = [CHR 0x27] @ page_title pg @ [CHR 0x27];
               subjRef = ''[wiki.js] New comment on '' @ page_title pg;
               textMeBb = ''A new comment was added to '' @ [CHR 0x27] @ pageRef @ [CHR 0x27] @
                          ''. More information: '' @ pageLink;
               emailOpts = \<lparr>mail_template = ''new-page'',
                            mail_to = [NOTIFY_EMAIL e],
                            mail_subject = subjRef,
                            mail_preheadertext = ''New comment on '' @ [CHR 0x27] @ pageRef @ [CHR 0x27],
                            mail_title_author = author_email,
                            mail_title = '' commented on '' @
                                         [CHR 0x27] @ pageRef @ [CHR 0x27] @ ''.'',
                            mail_content = content,
                            mail_buttonLink = pageLink,
                            mail_buttonText = ''Open '' @ [CHR 0x27] @ pageRef @ [CHR 0x27],
                            mail_textFallback = textMeBb\<rparr>
           in (Inr (), st\<lparr>outbox := outbox st @ [emailOpts]\<rparr>)))"

section \<open>The model's hooks\<close>

text \<open>\<open>$beforeUpdate\<close> and \<open>$beforeInsert\<close> (lines 52-58). \<open>$beforeInsert\<close>
  reads the clock twice, once for each column.\<close>

definition beforeUpdate :: "nat \<Rightarrow> comment \<Rightarrow> comment" where
  "beforeUpdate now c = c\<lparr>c_updatedAt := now\<rparr>"

definition beforeInsert :: "nat \<Rightarrow> nat \<Rightarrow> comment \<Rightarrow> comment" where
  "beforeInsert now later c = c\<lparr>c_createdAt := now, c_updatedAt := later\<rparr>"

text \<open>\<open>$afterInsert\<close> (lines 59-64): both side effects are awaited in turn, with no handler
  around them, so the first one that throws ends the hook with its error.\<close>

definition afterInsert :: "env \<Rightarrow> comment \<Rightarrow> wiki \<Rightarrow> (error + unit) \<times> wiki" where
  "afterInsert e this st =
     (case indexComments e (c_pageId this) st of
        (Inl err, st1) \<Rightarrow> (Inl err, st1)
      | (Inr u, st1) \<Rightarrow> sendNotify e (c_pageId this) (c_content this) (c_email this) st1)"

text \<open>The static afterUpdate hook (lines 65-70). \<open>found\<close> is what
  \<open>asFindQuery().select('id')\<close> returns: the ids of the rows the update matched.
  \<open>comment[0].id\<close> of an empty result is a TypeError; a comment id that resolves to no page
  id leaves indexComments without a page to read, a TypeError as well.\<close>

definition afterUpdate ::
  "(int \<Rightarrow> wiki \<Rightarrow> int option) \<Rightarrow> env \<Rightarrow> int list \<Rightarrow> wiki \<Rightarrow> (error + unit) \<times> wiki" where
  "afterUpdate getPageIdFromCommentId e found st =
     (case found of
        [] \<Rightarrow> (Inl TypeError, st)
      | cid # rest \<Rightarrow>
          (case getPageIdFromCommentId cid st of
             None \<Rightarrow> (Inl TypeError, st)
           | Some pageId \<Rightarrow> indexComments e pageId st))"

section \<open>The lifecycle operations\<close>

text \<open>The author object of lines 127-134: the user's own fields, the name and email replaced
  by the guest's when the user id is 2, and the ip.\<close>

definition author_of :: "user \<Rightarrow> string option \<Rightarrow> string option \<Rightarrow> string \<Rightarrow> author" where
  "author_of usr guestName guestEmail ip =
     \<lparr>user_id = user_id usr,
      user_name = (if user_id usr = 2 then guestName else user_name usr),
      user_email = (if user_id usr = 2 then guestEmail else user_email usr),
      user_groups = user_groups usr,
      author_ip = ip\<rparr>"

text \<open>\<open>{ ...user, ip }\<close> of lines 164-167 and 196-199.\<close>

definition with_ip :: "user \<Rightarrow> string \<Rightarrow> author" where
  "with_ip usr ip =
     \<lparr>user_id = user_id usr, user_name = user_name usr, user_email = user_email usr,
      user_groups = user_groups usr, author_ip = ip\<rparr>"

text \<open>postNewComment (lines 75-136).\<close>

definition postNewComment ::
  "provider \<Rightarrow> env \<Rightarrow> int \<Rightarrow> int \<Rightarrow> string \<Rightarrow> string option \<Rightarrow> string option \<Rightarrow> user \<Rightarrow> string
     \<Rightarrow> wiki \<Rightarrow> (error + comment) \<times> wiki" where
  "postNewComment P e pageId replyTo content guestName guestEmail usr ip st =
     (if user_id usr = 2 \<and> validate_guest e (toLower guestEmail) guestName \<noteq> []
      then (Inl (InputInvalid (hd (validate_guest e (toLower guestEmail) guestName))), st)
      else if length (trim content) < 2 then (Inl CommentContentMissing, st)
      else (case getPageFromDb st pageId of
              None \<Rightarrow> (Inl PageNotFound, st)
            | Some pg \<Rightarrow>
                if \<not> checkAccess e usr [''write:comments''] (page_path pg) (page_localeCode pg)
                then (Inl CommentPostForbidden, st)
                else prov_create P
                       \<lparr>cr_page = pg, cr_replyTo = replyTo, cr_content = trim content,
                        cr_user = author_of usr guestName guestEmail ip\<rparr> st))"

text \<open>updateComment (lines 141-169). \<open>!pageId\<close> holds for a lookup that found nothing and
  for the number 0.\<close>

definition updateComment ::
  "provider \<Rightarrow> env \<Rightarrow> int \<Rightarrow> string \<Rightarrow> user \<Rightarrow> string \<Rightarrow> wiki \<Rightarrow> (error + comment) \<times> wiki" where
  "updateComment P e cid content usr ip st =
     (case prov_getPageIdFromCommentId P cid st of
        None \<Rightarrow> (Inl CommentNotFound, st)
      | Some pageId \<Rightarrow>
          if pageId = 0 then (Inl CommentNotFound, st)
          else (case getPageFromDb st pageId of
                  None \<Rightarrow> (Inl PageNotFound, st)
                | Some pg \<Rightarrow>
                    if \<not> checkAccess e usr [''manage:comments''] (page_path pg) (page_localeCode pg)
                    then (Inl CommentManageForbidden, st)
                    else prov_update P
                           \<lparr>up_id = cid, up_content = content, up_page = pg,
                            up_user = with_ip usr ip\<rparr> st))"

text \<open>deleteComment (lines 174-201): nothing follows the provider's remove.\<close>

definition deleteComment ::
  "provider \<Rightarrow> env \<Rightarrow> int \<Rightarrow> user \<Rightarrow> string \<Rightarrow> wiki \<Rightarrow> (error + unit) \<times> wiki" where
  "deleteComment P e cid usr ip st =
     (case prov_getPageIdFromCommentId P cid st of
        None \<Rightarrow> (Inl CommentNotFound, st)
      | Some pageId \<Rightarrow>
          if pageId = 0 then (Inl CommentNotFound, st)
          else (case getPageFromDb st pageId of
                  None \<Rightarrow> (Inl PageNotFound, st)
                | Some pg \<Rightarrow>
                    if \<not> checkAccess e usr [''manage:comments''] (page_path pg) (page_localeCode pg)
                    then (Inl CommentManageForbidden, st)
                    else prov_remove P
                           \<lparr>rm_id = cid, rm_page = pg, rm_user = with_ip usr ip\<rparr> st))"

section \<open>The query builder and the storage provider\<close>

text \<open>objection.js runs a model's hooks inside the query that triggers them: an insert runs
  \<open>$beforeInsert\<close>, stores the row, then awaits \<open>$afterInsert\<close>; an update runs
  \<open>$beforeUpdate\<close>, stores the change, then awaits the static afterUpdate hook. A hook that
  throws makes the query's promise reject; the statement it follows has been executed already.
  The class defines no hook for delete.\<close>

text \<open>The id the database gives a new row: one more than the largest id in the table.\<close>

definition next_id :: "comment list \<Rightarrow> int" where
  "next_id cs = fold max (map c_id cs) 0 + 1"

definition query_insert :: "env \<Rightarrow> comment \<Rightarrow> wiki \<Rightarrow> (error + comment) \<times> wiki" where
  "query_insert e row st =
     (let stored = (beforeInsert (clock st) (clock st + clock_lag st) row)\<lparr>c_id := next_id (comments st)\<rparr>;
          st1 = st\<lparr>comments := comments st @ [stored]\<rparr>
      in case afterInsert e stored st1 of
           (Inl err, st2) \<Rightarrow> (Inl err, st2)
         | (Inr u, st2) \<Rightarrow> (Inr stored, st2))"

definition query_patchById ::
  "(int \<Rightarrow> wiki \<Rightarrow> int option) \<Rightarrow> env \<Rightarrow> int \<Rightarrow> (comment \<Rightarrow> comment) \<Rightarrow> wiki
     \<Rightarrow> (error + comment list) \<times> wiki" where
  "query_patchById getPageIdFromCommentId e cid change st =
     (let st1 = st\<lparr>comments :=
                  map (\<lambda>c. if c_id c = cid then beforeUpdate (clock st) (change c) else c)
                      (comments st)\<rparr>;
          matched = filter (\<lambda>c. c_id c = cid) (comments st1)
      in case afterUpdate getPageIdFromCommentId e (map c_id matched) st1 of
           (Inl err, st2) \<Rightarrow> (Inl err, st2)
         | (Inr u, st2) \<Rightarrow> (Inr matched, st2))"

definition query_deleteById :: "int \<Rightarrow> wiki \<Rightarrow> wiki" where
  "query_deleteById cid st = st\<lparr>comments := filter (\<lambda>c. c_id c \<noteq> cid) (comments st)\<rparr>"

text \<open>Modelled from the spec: the relational-table-backed StorageProvider
  (server/modules/comments/default/comment.js is not under src/). Section 4.4:
  \<open>create(page, replyTo, content, author) \<rightarrow> Comment\<close>,
  \<open>update(id, content, page, author) \<rightarrow> Comment\<close>, \<open>remove(id, page, author) \<rightarrow> void\<close>,
  \<open>getPageIdForComment(id) \<rightarrow> pageId | not-found\<close>, each a single statement on the comments
  table through the Comment model's query builder; update changes the content (section 3).\<close>

definition db_getPageIdFromCommentId :: "int \<Rightarrow> wiki \<Rightarrow> int option" where
  "db_getPageIdFromCommentId cid st = map_option c_pageId (find (\<lambda>c. c_id c = cid) (comments st))"

definition db_create :: "env \<Rightarrow> create_req \<Rightarrow> wiki \<Rightarrow> (error + comment) \<times> wiki" where
  "db_create e req st =
     query_insert e
       \<lparr>c_id = 0, c_pageId = page_id (cr_page req), c_replyTo = cr_replyTo req,
        c_content = cr_content req, c_render = renderComment e (cr_content req),
        c_authorId = user_id (cr_user req), c_name = user_name (cr_user req),
        c_email = user_email (cr_user req), c_ip = author_ip (cr_user req),
        c_createdAt = 0, c_updatedAt = 0\<rparr> st"

definition db_update :: "env \<Rightarrow> update_req \<Rightarrow> wiki \<Rightarrow> (error + comment) \<times> wiki" where
  "db_update e req st =
     (case query_patchById db_getPageIdFromCommentId e (up_id req)
             (\<lambda>c. c\<lparr>c_content := up_content req, c_render := renderComment e (up_content req)\<rparr>) st of
        (Inl err, st1) \<Rightarrow> (Inl err, st1)
      | (Inr [], st1) \<Rightarrow> (Inl CommentNotFound, st1)
      | (Inr (c # cs), st1) \<Rightarrow> (Inr c, st1))"

definition db_remove :: "remove_req \<Rightarrow> wiki \<Rightarrow> (error + unit) \<times> wiki" where
  "db_remove req st = (Inr (), query_deleteById (rm_id req) st)"

definition db_provider :: "env \<Rightarrow> provider" where
  "db_provider e =
     \<lparr>prov_create = db_create e, prov_update = db_update e, prov_remove = db_remove,
      prov_getPageIdFromCommentId = db_getPageIdFromCommentId\<rparr>"

section \<open>Example data\<close>

text \<open>A wiki with one page, id 42 at /a in locale en, whose extra bag holds a view counter; a
  registered user with access, a guest (user id 2), and collaborators that grant access to the
  members of group 1, accept an email that holds an at sign, and index without failing.\<close>

definition demo_env :: env where
  "demo_env =
     \<lparr>checkAccess = (\<lambda>u perms path locale. 1 \<in> set (user_groups u)),
      email_PATTERN = (\<lambda>s. CHR ''@'' \<in> set s),
      cleanHTML = (\<lambda>s. s),
      searchEngine_updated = (\<lambda>d. None),
      renderComment = (\<lambda>s. s),
      config_host = ''https://wiki.example'',
      NOTIFY_EMAIL = Some ''ops@wiki.example''\<rparr>"

text \<open>The same collaborators with a search engine that rejects every update.\<close>

definition failing_env :: env where
  "failing_env = demo_env\<lparr>searchEngine_updated := (\<lambda>d. Some (Rejected ''search engine unreachable''))\<rparr>"

definition alice :: user where
  "alice = \<lparr>user_id = 5, user_name = Some ''Alice'', user_email = Some ''alice@wiki.example'',
            user_groups = [1]\<rparr>"

definition guest :: user where
  "guest = \<lparr>user_id = 2, user_name = Some ''Guest'', user_email = Some ''guest@wiki.example'',
            user_groups = [1]\<rparr>"

definition page42 :: page where
  "page42 = \<lparr>page_id = 42, page_path = ''a'', page_localeCode = ''en'', page_title = ''Intro'',
             page_extra = [''views'' \<mapsto> JNum 7], page_render = ''<p>Intro</p>''\<rparr>"

definition hello :: comment where
  "hello = \<lparr>c_id = 1, c_pageId = 42, c_replyTo = 0, c_content = ''Hello world'',
            c_render = ''Hello world'', c_authorId = 5, c_name = Some ''Alice'',
            c_email = Some ''alice@wiki.example'', c_ip = ''10.0.0.1'',
            c_createdAt = 100, c_updatedAt = 100\<rparr>"

text \<open>No comment yet.\<close>

definition st_empty :: wiki where
  "st_empty = \<lparr>comments = [], pages = [page42], searchIndex = [], outbox = [], logs = [],
               clock = 100, clock_lag = 1\<rparr>"

text \<open>One comment on page 42, indexed.\<close>

definition st_one :: wiki where
  "st_one = \<lparr>comments = [hello],
             pages = [page42\<lparr>page_extra := [''views'' \<mapsto> JNum 7,
                                             ''comment'' \<mapsto> JArr [JStr ''Hello world'']]\<rparr>],
             searchIndex = [], outbox = [], logs = [], clock = 200, clock_lag = 0\<rparr>"

text \<open>No comment left on page 42, whose snapshot still lists one.\<close>

definition st_stale :: wiki where
  "st_stale = st_one\<lparr>comments := []\<rparr>"

text \<open>Two comments on page 42 created at the same instant, stored in the order of their ids.\<close>

definition st_ties :: wiki where
  "st_ties = st_empty\<lparr>comments :=
     [hello\<lparr>c_content := ''first''\<rparr>, hello\<lparr>c_id := 2, c_content := ''second''\<rparr>]\<rparr>"

text \<open>A second page, and a thread on page 42 in which two comments share a creation time
  and a third is later, stored next to a comment of page 43. Page 42's snapshot is out of
  date.\<close>

definition page43 :: page where
  "page43 = \<lparr>page_id = 43, page_path = ''b'', page_localeCode = ''en'', page_title = ''Other'',
             page_extra = Map.empty, page_render = ''<p>Other</p>''\<rparr>"

definition st_thread :: wiki where
  "st_thread =
     \<lparr>comments =
        [hello\<lparr>c_content := ''first''\<rparr>,
         hello\<lparr>c_id := 2, c_pageId := 43, c_content := ''elsewhere'', c_createdAt := 200\<rparr>,
         hello\<lparr>c_id := 3, c_content := ''latest'', c_createdAt := 300\<rparr>,
         hello\<lparr>c_id := 4, c_content := ''second''\<rparr>],
      pages = [page42\<lparr>page_extra := [''views'' \<mapsto> JNum 7,
                                         ''comment'' \<mapsto> JArr [JStr ''Hello world'']]\<rparr>,
               page43],
      searchIndex = [], outbox = [], logs = [], clock = 400, clock_lag = 0\<rparr>"

text \<open>A comment whose page is gone.\<close>

definition st_orphan :: wiki where
  "st_orphan = st_empty\<lparr>comments := [hello\<lparr>c_pageId := 7\<rparr>]\<rparr>"

section \<open>Facts about the tables\<close>

lemmas example_data =
  demo_env_def failing_env_def alice_def guest_def page42_def hello_def st_empty_def st_one_def
  st_stale_def st_ties_def st_orphan_def page43_def st_thread_def

lemmas library_defs =
  validate_guest_def validate_email_def validate_name_def toLower_def lower_char_def isEmpty_def
  trim_def is_whitespace_def

lemmas operation_defs =
  postNewComment_def updateComment_def deleteComment_def getPageFromDb_def findById_def
  author_of_def with_ip_def

lemmas provider_defs =
  db_provider_def db_create_def db_update_def db_remove_def db_getPageIdFromCommentId_def
  query_insert_def query_patchById_def query_deleteById_def next_id_def beforeInsert_def
  beforeUpdate_def afterInsert_def afterUpdate_def

lemmas effect_defs =
  indexComments_def sendNotify_def existingComments_def truthy_array_def patch_extra_def
  Let_def

lemma findById_id: "findById ps pid = Some pg \<Longrightarrow> page_id pg = pid"
  by (induction ps) (auto simp add: findById_def split: if_splits)

lemma findById_patch_same:
  "findById ps pid = Some pg \<Longrightarrow> findById (patch_extra pid ex ps) pid = Some (pg\<lparr>page_extra := ex\<rparr>)"
  by (induction ps) (auto simp add: findById_def patch_extra_def split: if_splits)

lemma patch_extra_twice: "patch_extra pid ex (patch_extra pid ex' ps) = patch_extra pid ex ps"
  by (induction ps) (auto simp add: patch_extra_def)

lemma patch_extra_others:
  "filter (\<lambda>q. page_id q \<noteq> pid) (patch_extra pid ex ps) = filter (\<lambda>q. page_id q \<noteq> pid) ps"
  by (induction ps) (auto simp add: patch_extra_def)

lemma set_insert_desc: "set (insert_desc c ds) = insert c (set ds)"
  by (induction ds) auto

lemma sorted_insert_desc:
  "sorted_wrt (\<lambda>a b. c_createdAt b \<le> c_createdAt a) ds \<Longrightarrow>
   sorted_wrt (\<lambda>a b. c_createdAt b \<le> c_createdAt a) (insert_desc c ds)"
  by (induction ds) (auto simp add: set_insert_desc)

lemma sorted_orderBy:
  "sorted_wrt (\<lambda>a b. c_createdAt b \<le> c_createdAt a) (orderBy_createdAt_desc cs)"
  by (induction cs) (auto simp add: sorted_insert_desc)

lemma filter_insert_desc:
  "filter (\<lambda>x. c_createdAt x = t) (insert_desc c ds) =
     (if c_createdAt c = t then c # filter (\<lambda>x. c_createdAt x = t) ds
      else filter (\<lambda>x. c_createdAt x = t) ds)"
  by (induction ds) auto

lemma filter_orderBy:
  "filter (\<lambda>x. c_createdAt x = t) (orderBy_createdAt_desc cs) = filter (\<lambda>x. c_createdAt x = t) cs"
  by (induction cs) (auto simp add: filter_insert_desc)

section \<open>What indexComments and sendNotify do\<close>

text \<open>The bag indexComments writes for a page: the page's own bag with the comment field set
  to the contents of the page's comments, latest first.\<close>

lemma indexComments_missing:
  "findById (pages st) pageId = None \<Longrightarrow> indexComments e pageId st = (Inl TypeError, st)"
  by (simp add: indexComments_def truthy_array_def)

lemma indexComments_found:
  assumes "findById (pages st) pageId = Some pg"
    and "ex = (page_extra pg)(''comment'' \<mapsto>
                 JArr (map JStr (map c_content (existingComments st pageId))))"
    and "doc = page.extend (pg\<lparr>page_extra := ex\<rparr>) \<lparr>safeContent = cleanHTML e (page_render pg)\<rparr>"
    and "st1 = st\<lparr>pages := patch_extra pageId ex (pages st)\<rparr>"
  shows "indexComments e pageId st =
     (case searchEngine_updated e doc of
        Some err \<Rightarrow> (Inl err, st1)
      | None \<Rightarrow> (Inr (), st1\<lparr>searchIndex := searchIndex st @ [doc]\<rparr>))"
proof -
  have pid: "page_id pg = pageId" using assms(1) by (rule findById_id)
  have again: "findById (patch_extra pageId ex (pages st)) pageId = Some (pg\<lparr>page_extra := ex\<rparr>)"
    using assms(1) by (rule findById_patch_same)
  show ?thesis
    using assms(1) again
    by (simp add: indexComments_def truthy_array_def pid Let_def assms(2-4) split: option.splits)
qed

lemma indexComments_pages:
  assumes "findById (pages st) pageId = Some pg" and "indexComments e pageId st = (r, st')"
  shows "pages st' = patch_extra pageId ((page_extra pg)(''comment'' \<mapsto>
            JArr (map JStr (map c_content (existingComments st pageId))))) (pages st)"
proof (cases "searchEngine_updated e (page.extend
     (pg\<lparr>page_extra := (page_extra pg)(''comment'' \<mapsto>
            JArr (map JStr (map c_content (existingComments st pageId))))\<rparr>)
     \<lparr>safeContent = cleanHTML e (page_render pg)\<rparr>)")
  case None
  with assms(2) indexComments_found [OF assms(1) refl refl refl, of e] show ?thesis by auto
next
  case (Some err)
  with assms(2) indexComments_found [OF assms(1) refl refl refl, of e] show ?thesis by auto
qed

lemma indexComments_frame:
  assumes "indexComments e pageId st = (r, st')"
  shows "comments st' = comments st \<and> outbox st' = outbox st \<and> logs st' = logs st \<and>
         clock st' = clock st"
proof (cases "findById (pages st) pageId")
  case None
  with assms show ?thesis by (simp add: indexComments_missing)
next
  case (Some pg)
  show ?thesis
  proof (cases "searchEngine_updated e (page.extend
     (pg\<lparr>page_extra := (page_extra pg)(''comment'' \<mapsto>
            JArr (map JStr (map c_content (existingComments st pageId))))\<rparr>)
     \<lparr>safeContent = cleanHTML e (page_render pg)\<rparr>)")
    case None
    with assms indexComments_found [OF Some refl refl refl, of e] show ?thesis by auto
  next
    case (Some err)
    with assms indexComments_found [OF \<open>findById (pages st) pageId = Some pg\<close> refl refl refl, of e]
    show ?thesis by auto
  qed
qed

lemma sendNotify_frame:
  assumes "sendNotify e pageId content author_email st = (r, st')"
  shows "comments st' = comments st \<and> pages st' = pages st \<and> logs st' = logs st \<and>
         searchIndex st' = searchIndex st"
  using assms by (auto simp add: sendNotify_def Let_def split: option.splits)

section \<open>Creating a comment: the order of the checks\<close>

text \<open>
  C5, as the code has it. For a content whose trimmed length is below 2, postNewComment fails
  and hands nothing to the storage provider, whatever the provider is: the state is the one it
  was given. The error is CommentContentMissing, except for a guest (user id 2) whose name or
  email does not validate: the guest's fields are checked first (lines 77-102 come before
  lines 104-107), and the error is then InputInvalid with the first validation message.
\<close>

theorem create_short_content:
  assumes "length (trim content) < 2"
  shows "postNewComment P e pageId replyTo content guestName guestEmail usr ip st =
           (Inl (if user_id usr = 2 \<and> validate_guest e (toLower guestEmail) guestName \<noteq> []
                 then InputInvalid (hd (validate_guest e (toLower guestEmail) guestName))
                 else CommentContentMissing), st)"
  using assms by (simp add: postNewComment_def)

theorem create_short_content_witness:
  "length (trim '' x '') < 2 \<and>
   postNewComment (db_provider demo_env) demo_env 42 0 '' x '' None None alice ''10.0.0.1'' st_empty =
     (Inl CommentContentMissing, st_empty)"
proof -
  have short: "length (trim '' x '') < 2"
    by (simp add: trim_def is_whitespace_def)
  have registered: "user_id alice \<noteq> 2"
    by (simp add: alice_def)
  from create_short_content [OF short, of "db_provider demo_env" demo_env 42 0 None None alice
         "''10.0.0.1''" st_empty] short registered
  show ?thesis by simp
qed

text \<open>C5 as stated fails for a guest whose email is not an address: the content ''x'' is too
  short, and the call fails with InputInvalid, not with CommentContentMissing.\<close>

theorem create_short_content_guest_counterexample:
  "length (trim ''x'') < 2 \<and>
   postNewComment (db_provider demo_env) demo_env 42 0 ''x'' None (Some ''not-an-email'') guest
       ''10.0.0.1'' st_empty =
     (Inl (InputInvalid ''Email is not a valid email''), st_empty) \<and>
   InputInvalid ''Email is not a valid email'' \<noteq> CommentContentMissing"
  by (simp add: postNewComment_def trim_def is_whitespace_def guest_def demo_env_def
        validate_guest_def validate_email_def validate_name_def toLower_def lower_char_def
        isEmpty_def)

text \<open>
  C6. A guest (user id 2) who gives no email: \<open>_.toLower\<close> turns the missing value into the
  empty string, which validate.js's email validator checks against its PATTERN as it does any
  string. The pattern is a parameter of the model; it requires an at sign, so it does not match
  the empty string, which is the second hypothesis. The call fails with InputInvalid and the
  email message (the email rule comes first), and the state is unchanged for every provider.
\<close>

theorem create_guest_without_email:
  assumes "user_id usr = 2" and "\<not> email_PATTERN e []"
  shows "postNewComment P e pageId replyTo content guestName None usr ip st =
           (Inl (InputInvalid ''Email is not a valid email''), st)"
  using assms by (simp add: postNewComment_def validate_guest_def validate_email_def toLower_def)

theorem create_guest_without_email_witness:
  "user_id guest = 2 \<and> \<not> email_PATTERN demo_env [] \<and>
   postNewComment (db_provider demo_env) demo_env 42 0 ''Hello world'' (Some ''Bob'') None guest
       ''10.0.0.1'' st_empty =
     (Inl (InputInvalid ''Email is not a valid email''), st_empty)"
proof -
  have g: "user_id guest = 2" by (simp add: guest_def)
  have p: "\<not> email_PATTERN demo_env []" by (simp add: demo_env_def)
  from create_guest_without_email [OF g p] g p show ?thesis by blast
qed

text \<open>
  C10. Whether postNewComment treats the author as a guest depends on the user id alone.
  For a user id other than 2 the result is given by the content check, the page lookup and the
  access check only: the guest name and email, and the validator, do not occur in it, and the
  provider receives \<open>{ ...user, ip }\<close> with the user's own name and email. For user id 2 the
  guest fields are validated first, and the provider receives the user object with the name
  and email replaced by the guest's.
\<close>

theorem guest_handling_by_sentinel:
  "(user_id usr \<noteq> 2 \<longrightarrow>
      postNewComment P e pageId replyTo content guestName guestEmail usr ip st =
        (if length (trim content) < 2 then (Inl CommentContentMissing, st)
         else case getPageFromDb st pageId of
                None \<Rightarrow> (Inl PageNotFound, st)
              | Some pg \<Rightarrow>
                  if checkAccess e usr [''write:comments''] (page_path pg) (page_localeCode pg)
                  then prov_create P
                         \<lparr>cr_page = pg, cr_replyTo = replyTo, cr_content = trim content,
                          cr_user = with_ip usr ip\<rparr> st
                  else (Inl CommentPostForbidden, st))) \<and>
   (user_id usr = 2 \<longrightarrow>
      postNewComment P e pageId replyTo content guestName guestEmail usr ip st =
        (if validate_guest e (toLower guestEmail) guestName \<noteq> []
         then (Inl (InputInvalid (hd (validate_guest e (toLower guestEmail) guestName))), st)
         else if length (trim content) < 2 then (Inl CommentContentMissing, st)
         else case getPageFromDb st pageId of
                None \<Rightarrow> (Inl PageNotFound, st)
              | Some pg \<Rightarrow>
                  if checkAccess e usr [''write:comments''] (page_path pg) (page_localeCode pg)
                  then prov_create P
                         \<lparr>cr_page = pg, cr_replyTo = replyTo, cr_content = trim content,
                          cr_user = (with_ip usr ip)\<lparr>user_name := guestName,
                                                      user_email := guestEmail\<rparr>\<rparr> st
                  else (Inl CommentPostForbidden, st)))"
  by (auto simp add: postNewComment_def author_of_def with_ip_def split: option.splits)

text \<open>A registered user who also sends an invalid guest name and email is not validated and
  is stored under her own name; the guest is rejected with the same fields, and stored under
  the guest name with valid ones.\<close>

theorem guest_handling_by_sentinel_witness:
  "user_id alice \<noteq> 2 \<and>
   map c_name (comments (snd (postNewComment (db_provider demo_env) demo_env 42 0 ''Hello world''
       (Some ''x'') (Some ''not-an-email'') alice ''10.0.0.1'' st_empty))) = [Some ''Alice''] \<and>
   user_id guest = 2 \<and>
   postNewComment (db_provider demo_env) demo_env 42 0 ''Hello world''
       (Some ''x'') (Some ''not-an-email'') guest ''10.0.0.1'' st_empty =
     (Inl (InputInvalid ''Email is not a valid email''), st_empty) \<and>
   map c_name (comments (snd (postNewComment (db_provider demo_env) demo_env 42 0 ''Hello world''
       (Some ''Bob'') (Some ''bob@wiki.example'') guest ''10.0.0.1'' st_empty))) = [Some ''Bob'']"
proof -
  have a: "user_id alice \<noteq> 2" by (simp add: alice_def)
  have g: "user_id guest = 2" by (simp add: guest_def)
  have bad: "validate_guest demo_env (toLower (Some ''not-an-email'')) (Some ''x'') =
               [''Email is not a valid email'', ''Name is too short (minimum is 2 characters)'']"
    by (simp add: library_defs demo_env_def)
  have good: "validate_guest demo_env (toLower (Some ''bob@wiki.example'')) (Some ''Bob'') = []"
    by (simp add: library_defs demo_env_def)
  have len: "\<not> length (trim ''Hello world'') < 2"
    by (simp add: trim_def is_whitespace_def)
  have pg: "getPageFromDb st_empty 42 = Some page42"
    by (simp add: getPageFromDb_def findById_def st_empty_def page42_def)
  have acc: "checkAccess demo_env alice [''write:comments''] (page_path page42) (page_localeCode page42)"
            "checkAccess demo_env guest [''write:comments''] (page_path page42) (page_localeCode page42)"
    by (simp_all add: demo_env_def alice_def guest_def)
  have r1: "postNewComment (db_provider demo_env) demo_env 42 0 ''Hello world''
              (Some ''x'') (Some ''not-an-email'') alice ''10.0.0.1'' st_empty =
            prov_create (db_provider demo_env)
              \<lparr>cr_page = page42, cr_replyTo = 0, cr_content = trim ''Hello world'',
               cr_user = with_ip alice ''10.0.0.1''\<rparr> st_empty"
    using guest_handling_by_sentinel [of alice "db_provider demo_env" demo_env 42 0
            "''Hello world''" "Some ''x''" "Some ''not-an-email''" "''10.0.0.1''" st_empty]
          a len pg acc
    by simp
  have r2: "postNewComment (db_provider demo_env) demo_env 42 0 ''Hello world''
              (Some ''x'') (Some ''not-an-email'') guest ''10.0.0.1'' st_empty =
            (Inl (InputInvalid ''Email is not a valid email''), st_empty)"
    using guest_handling_by_sentinel [of guest "db_provider demo_env" demo_env 42 0
            "''Hello world''" "Some ''x''" "Some ''not-an-email''" "''10.0.0.1''" st_empty]
          g bad
    by simp
  have r3: "postNewComment (db_provider demo_env) demo_env 42 0 ''Hello world''
              (Some ''Bob'') (Some ''bob@wiki.example'') guest ''10.0.0.1'' st_empty =
            prov_create (db_provider demo_env)
              \<lparr>cr_page = page42, cr_replyTo = 0, cr_content = trim ''Hello world'',
               cr_user = (with_ip guest ''10.0.0.1'')\<lparr>user_name := Some ''Bob'',
                            user_email := Some ''bob@wiki.example''\<rparr>\<rparr> st_empty"
    using guest_handling_by_sentinel [of guest "db_provider demo_env" demo_env 42 0
            "''Hello world''" "Some ''Bob''" "Some ''bob@wiki.example''" "''10.0.0.1''" st_empty]
          g good len pg acc
    by simp
  have s1: "map c_name (comments (snd (prov_create (db_provider demo_env)
              \<lparr>cr_page = page42, cr_replyTo = 0, cr_content = trim ''Hello world'',
               cr_user = with_ip alice ''10.0.0.1''\<rparr> st_empty))) = [Some ''Alice'']"
    by (simp add: example_data library_defs operation_defs provider_defs effect_defs)
  have s3: "map c_name (comments (snd (prov_create (db_provider demo_env)
              \<lparr>cr_page = page42, cr_replyTo = 0, cr_content = trim ''Hello world'',
               cr_user = (with_ip guest ''10.0.0.1'')\<lparr>user_name := Some ''Bob'',
                            user_email := Some ''bob@wiki.example''\<rparr>\<rparr> st_empty))) = [Some ''Bob'']"
    by (simp add: example_data library_defs operation_defs provider_defs effect_defs)
  from a g r2 show ?thesis
    by (simp only: r1 r3 s1 s3 simp_thms)
qed

section \<open>A page or a comment that does not exist\<close>

text \<open>
  C7. When the page lookup finds nothing, each operation fails without calling the provider's
  create, update or remove (the result is the same for every provider) and leaves the state
  as it was. postNewComment looks the page up once the guest check and the content check of
  lines 77-107 have passed, and fails with PageNotFound when the lookup finds nothing; a call
  that fails one of those checks ends before the lookup, with that check's error, on the same
  state. updateComment and deleteComment fail with CommentNotFound when the comment id
  resolves to no page id (or to 0, which \<open>!pageId\<close> treats alike), and with PageNotFound when
  the page id resolves and the page lookup finds nothing.
\<close>

theorem absent_page_no_mutation:
  "(getPageFromDb st pageId = None \<and>
    \<not> (user_id usr = 2 \<and> validate_guest e (toLower guestEmail) guestName \<noteq> []) \<and>
    \<not> length (trim content) < 2 \<longrightarrow>
      postNewComment P e pageId replyTo content guestName guestEmail usr ip st =
        (Inl PageNotFound, st)) \<and>
   (getPageFromDb st pageId = None \<longrightarrow>
      postNewComment P e pageId replyTo content guestName guestEmail usr ip st =
        (Inl (if user_id usr = 2 \<and> validate_guest e (toLower guestEmail) guestName \<noteq> []
              then InputInvalid (hd (validate_guest e (toLower guestEmail) guestName))
              else if length (trim content) < 2 then CommentContentMissing
              else PageNotFound), st)) \<and>
   (prov_getPageIdFromCommentId P cid st = None \<or> prov_getPageIdFromCommentId P cid st = Some 0 \<longrightarrow>
      updateComment P e cid content usr ip st = (Inl CommentNotFound, st) \<and>
      deleteComment P e cid usr ip st = (Inl CommentNotFound, st)) \<and>
   (prov_getPageIdFromCommentId P cid st = Some pid \<and> pid \<noteq> 0 \<and> getPageFromDb st pid = None \<longrightarrow>
      updateComment P e cid content usr ip st = (Inl PageNotFound, st) \<and>
      deleteComment P e cid usr ip st = (Inl PageNotFound, st))"
proof -
  have create: "postNewComment P e pageId replyTo content guestName guestEmail usr ip st =
        (Inl (if user_id usr = 2 \<and> validate_guest e (toLower guestEmail) guestName \<noteq> []
              then InputInvalid (hd (validate_guest e (toLower guestEmail) guestName))
              else if length (trim content) < 2 then CommentContentMissing
              else PageNotFound), st)"
    if "getPageFromDb st pageId = None"
    using that by (simp add: postNewComment_def)
  have unresolved: "updateComment P e cid content usr ip st = (Inl CommentNotFound, st) \<and>
                    deleteComment P e cid usr ip st = (Inl CommentNotFound, st)"
    if "prov_getPageIdFromCommentId P cid st = None \<or> prov_getPageIdFromCommentId P cid st = Some 0"
    using that by (auto simp add: updateComment_def deleteComment_def)
  have resolved: "updateComment P e cid content usr ip st = (Inl PageNotFound, st) \<and>
                  deleteComment P e cid usr ip st = (Inl PageNotFound, st)"
    if "prov_getPageIdFromCommentId P cid st = Some pid" and "pid \<noteq> 0"
      and "getPageFromDb st pid = None"
    using that by (simp add: updateComment_def deleteComment_def)
  from create unresolved resolved show ?thesis by simp
qed

text \<open>A create on page 99, which does not exist, with a valid content; an update and a delete
  of comment 8, which does not exist, and of comment 1, whose page 7 does not exist.\<close>

theorem absent_page_no_mutation_witness:
  "getPageFromDb st_empty 99 = None \<and>
   \<not> (user_id alice = 2 \<and> validate_guest demo_env (toLower None) None \<noteq> []) \<and>
   \<not> length (trim ''Hello world'') < 2 \<and>
   postNewComment (db_provider demo_env) demo_env 99 0 ''Hello world'' None None alice ''10.0.0.1''
       st_empty = (Inl PageNotFound, st_empty) \<and>
   prov_getPageIdFromCommentId (db_provider demo_env) 8 st_orphan = None \<and>
   updateComment (db_provider demo_env) demo_env 8 ''Hi'' alice ''10.0.0.1'' st_orphan =
     (Inl CommentNotFound, st_orphan) \<and>
   deleteComment (db_provider demo_env) demo_env 8 alice ''10.0.0.1'' st_orphan =
     (Inl CommentNotFound, st_orphan) \<and>
   prov_getPageIdFromCommentId (db_provider demo_env) 1 st_orphan = Some 7 \<and>
   getPageFromDb st_orphan 7 = None \<and>
   updateComment (db_provider demo_env) demo_env 1 ''Hi'' alice ''10.0.0.1'' st_orphan =
     (Inl PageNotFound, st_orphan) \<and>
   deleteComment (db_provider demo_env) demo_env 1 alice ''10.0.0.1'' st_orphan =
     (Inl PageNotFound, st_orphan)"
proof -
  have a: "getPageFromDb st_empty 99 = None"
    by (simp add: getPageFromDb_def findById_def st_empty_def page42_def)
  have b: "prov_getPageIdFromCommentId (db_provider demo_env) 8 st_orphan = None"
    by (simp add: db_provider_def db_getPageIdFromCommentId_def st_orphan_def st_empty_def hello_def)
  have c: "prov_getPageIdFromCommentId (db_provider demo_env) 1 st_orphan = Some 7"
    by (simp add: db_provider_def db_getPageIdFromCommentId_def st_orphan_def st_empty_def hello_def)
  have d: "getPageFromDb st_orphan 7 = None"
    by (simp add: getPageFromDb_def findById_def st_orphan_def st_empty_def page42_def)
  have v: "\<not> (user_id alice = 2 \<and> validate_guest demo_env (toLower None) None \<noteq> [])"
    by (simp add: alice_def)
  have l: "\<not> length (trim ''Hello world'') < 2"
    by (simp add: trim_def is_whitespace_def)
  have create: "postNewComment (db_provider demo_env) demo_env 99 0 ''Hello world'' None None alice
                  ''10.0.0.1'' st_empty = (Inl PageNotFound, st_empty)"
    using absent_page_no_mutation
         [where st = st_empty and pageId = 99 and P = "db_provider demo_env" and e = demo_env
            and replyTo = 0 and content = "''Hello world''" and guestName = None
            and guestEmail = None and usr = alice and ip = "''10.0.0.1''"]
          a v l
    by blast
  have unresolved:
    "updateComment (db_provider demo_env) demo_env 8 ''Hi'' alice ''10.0.0.1'' st_orphan =
       (Inl CommentNotFound, st_orphan) \<and>
     deleteComment (db_provider demo_env) demo_env 8 alice ''10.0.0.1'' st_orphan =
       (Inl CommentNotFound, st_orphan)"
    using absent_page_no_mutation
         [where st = st_orphan and P = "db_provider demo_env" and e = demo_env
            and content = "''Hi''" and usr = alice and ip = "''10.0.0.1''" and cid = 8]
          b
    by blast
  have resolved:
    "updateComment (db_provider demo_env) demo_env 1 ''Hi'' alice ''10.0.0.1'' st_orphan =
       (Inl PageNotFound, st_orphan) \<and>
     deleteComment (db_provider demo_env) demo_env 1 alice ''10.0.0.1'' st_orphan =
       (Inl PageNotFound, st_orphan)"
    using absent_page_no_mutation
         [where st = st_orphan and P = "db_provider demo_env" and e = demo_env
            and content = "''Hi''" and usr = alice and ip = "''10.0.0.1''" and cid = 1 and pid = 7]
          c d
    by simp
  from a v l b c d create unresolved resolved show ?thesis by blast
qed

section \<open>The snapshot indexComments writes\<close>

lemma mset_insert_desc: "mset (insert_desc c ds) = add_mset c (mset ds)"
  by (induction ds) auto

lemma mset_orderBy: "mset (orderBy_createdAt_desc cs) = mset cs"
  by (induction cs) (auto simp add: mset_insert_desc)

lemma existingComments_rows:
  "mset (existingComments st pageId) = mset (filter (\<lambda>c. c_pageId c = pageId) (comments st))"
  by (simp add: existingComments_def mset_orderBy)

text \<open>
  C9. For a page that has comments, indexComments leaves the page with an extra bag whose
  comment field is exactly the list of the contents of the page's current comments, whatever
  the field held before: the list written is the contents of the rows the query returns, and
  those rows are the rows of the comments table with this page id, each as often as the table
  holds it and no other row. The other fields of the bag are those of the bag it read. The
  page's other columns and the rows of other pages are unchanged. This holds whether or not
  the search engine accepts the document afterwards.
\<close>

theorem indexComments_replaces_snapshot:
  assumes "findById (pages st) pageId = Some pg"
    and "existingComments st pageId \<noteq> []"
    and "indexComments e pageId st = (r, st')"
  shows "\<exists>pg'. findById (pages st') pageId = Some pg' \<and>
           page_extra pg' ''comment'' =
             Some (JArr (map JStr (map c_content (existingComments st pageId)))) \<and>
           mset (existingComments st pageId) =
             mset (filter (\<lambda>c. c_pageId c = pageId) (comments st)) \<and>
           (\<forall>k. k \<noteq> ''comment'' \<longrightarrow> page_extra pg' k = page_extra pg k) \<and>
           page_id pg' = page_id pg \<and> page_path pg' = page_path pg \<and>
           page_localeCode pg' = page_localeCode pg \<and> page_title pg' = page_title pg \<and>
           page_render pg' = page_render pg \<and>
           filter (\<lambda>q. page_id q \<noteq> pageId) (pages st') =
             filter (\<lambda>q. page_id q \<noteq> pageId) (pages st)"
proof -
  let ?ex = "(page_extra pg)(''comment'' \<mapsto>
               JArr (map JStr (map c_content (existingComments st pageId))))"
  have pages': "pages st' = patch_extra pageId ?ex (pages st)"
    using assms(1) assms(3) by (rule indexComments_pages)
  have "findById (pages st') pageId = Some (pg\<lparr>page_extra := ?ex\<rparr>)"
    unfolding pages' using assms(1) by (rule findById_patch_same)
  then show ?thesis
    by (simp add: pages' patch_extra_others existingComments_rows)
qed

text \<open>Page 42 has three comments and a snapshot that lists one old content; page 43 has a
  comment of its own. After indexComments the snapshot of page 42 lists its three contents and
  not that of page 43, the view counter is as before, and page 43 is untouched.\<close>

theorem indexComments_replaces_snapshot_witness:
  "findById (pages st_thread) 42 =
     Some (page42\<lparr>page_extra := [''views'' \<mapsto> JNum 7,
                                   ''comment'' \<mapsto> JArr [JStr ''Hello world'']]\<rparr>) \<and>
   existingComments st_thread 42 \<noteq> [] \<and>
   map c_content (filter (\<lambda>c. c_pageId c = 42) (comments st_thread)) =
     [''first'', ''latest'', ''second''] \<and>
   (\<exists>pg'. findById (pages (snd (indexComments demo_env 42 st_thread))) 42 = Some pg' \<and>
          page_extra pg' ''comment'' = Some (JArr [JStr ''latest'', JStr ''first'', JStr ''second'']) \<and>
          page_extra pg' ''views'' = Some (JNum 7)) \<and>
   filter (\<lambda>q. page_id q \<noteq> 42) (pages (snd (indexComments demo_env 42 st_thread))) = [page43]"
proof -
  let ?old = "page42\<lparr>page_extra := [''views'' \<mapsto> JNum 7,
                                      ''comment'' \<mapsto> JArr [JStr ''Hello world'']]\<rparr>"
  have found: "findById (pages st_thread) 42 = Some ?old"
    by (simp add: findById_def st_thread_def page42_def)
  have rows: "map c_content (existingComments st_thread 42) = [''latest'', ''first'', ''second'']"
    by (simp add: existingComments_def st_thread_def hello_def)
  then have some: "existingComments st_thread 42 \<noteq> []" by auto
  have table: "map c_content (filter (\<lambda>c. c_pageId c = 42) (comments st_thread)) =
                 [''first'', ''latest'', ''second'']"
    by (simp add: st_thread_def hello_def)
  have others: "filter (\<lambda>q. page_id q \<noteq> 42) (pages st_thread) = [page43]"
    by (simp add: st_thread_def page42_def page43_def)
  from indexComments_replaces_snapshot [OF found some surjective_pairing, of demo_env]
  obtain pg' where
    pg': "findById (pages (snd (indexComments demo_env 42 st_thread))) 42 = Some pg'"
    and snap: "page_extra pg' ''comment'' =
                 Some (JArr (map JStr (map c_content (existingComments st_thread 42))))"
    and rest: "\<forall>k. k \<noteq> ''comment'' \<longrightarrow> page_extra pg' k = page_extra ?old k"
    and frame: "filter (\<lambda>q. page_id q \<noteq> 42) (pages (snd (indexComments demo_env 42 st_thread))) =
                  filter (\<lambda>q. page_id q \<noteq> 42) (pages st_thread)"
    by blast
  have "page_extra pg' ''comment'' = Some (JArr [JStr ''latest'', JStr ''first'', JStr ''second''])"
    using snap by (simp add: rows)
  moreover have "page_extra pg' ''views'' = Some (JNum 7)"
    using rest by (simp add: page42_def)
  ultimately show ?thesis using found some table pg' frame others by auto
qed

text \<open>
  C8, as the code has it. Two runs of indexComments in a row, with nothing written in between,
  leave the same pages table: the second run writes the snapshot the first one wrote. That
  snapshot, after either run, lists the contents of the page's comments (the rows of the
  comments table with this page id, each once per row) by creation time, latest first. The
  query orders by createdAt only: comments created at the same instant are listed in the
  order the table holds them, not by id.
\<close>

theorem indexComments_twice:
  assumes "indexComments e pageId st = (r1, st1)"
    and "indexComments e pageId st1 = (r2, st2)"
  shows "pages st2 = pages st1 \<and>
         (\<forall>pg. findById (pages st) pageId = Some pg \<longrightarrow>
            (\<exists>pg1. findById (pages st1) pageId = Some pg1 \<and>
                   findById (pages st2) pageId = Some pg1 \<and>
                   page_extra pg1 ''comment'' =
                     Some (JArr (map JStr (map c_content (existingComments st pageId)))))) \<and>
         sorted_wrt (\<lambda>a b. c_createdAt b \<le> c_createdAt a) (existingComments st pageId) \<and>
         mset (existingComments st pageId) =
           mset (filter (\<lambda>c. c_pageId c = pageId) (comments st)) \<and>
         (\<forall>t. filter (\<lambda>c. c_createdAt c = t) (existingComments st pageId) =
              filter (\<lambda>c. c_createdAt c = t) (filter (\<lambda>c. c_pageId c = pageId) (comments st)))"
proof -
  have same: "existingComments st1 pageId = existingComments st pageId"
    using indexComments_frame [OF assms(1)] by (simp add: existingComments_def)
  have order: "sorted_wrt (\<lambda>a b. c_createdAt b \<le> c_createdAt a) (existingComments st pageId)"
    by (simp add: existingComments_def sorted_orderBy)
  have ties: "\<forall>t. filter (\<lambda>c. c_createdAt c = t) (existingComments st pageId) =
              filter (\<lambda>c. c_createdAt c = t) (filter (\<lambda>c. c_pageId c = pageId) (comments st))"
    by (simp add: existingComments_def filter_orderBy)
  have again: "pages st2 = pages st1 \<and>
         (\<forall>pg. findById (pages st) pageId = Some pg \<longrightarrow>
            (\<exists>pg1. findById (pages st1) pageId = Some pg1 \<and>
                   findById (pages st2) pageId = Some pg1 \<and>
                   page_extra pg1 ''comment'' =
                     Some (JArr (map JStr (map c_content (existingComments st pageId))))))"
  proof (cases "findById (pages st) pageId")
    case None
    then have "st1 = st"
      using assms(1) by (simp add: indexComments_missing)
    with None assms(2) show ?thesis by (simp add: indexComments_missing)
  next
    case (Some pg)
    define ex where "ex = (page_extra pg)(''comment'' \<mapsto>
                 JArr (map JStr (map c_content (existingComments st pageId))))"
    have p1: "pages st1 = patch_extra pageId ex (pages st)"
      unfolding ex_def using Some assms(1) by (rule indexComments_pages)
    have f1: "findById (pages st1) pageId = Some (pg\<lparr>page_extra := ex\<rparr>)"
      unfolding p1 using Some by (rule findById_patch_same)
    have ex2: "(page_extra (pg\<lparr>page_extra := ex\<rparr>))(''comment'' \<mapsto>
                 JArr (map JStr (map c_content (existingComments st1 pageId)))) = ex"
      by (simp add: same ex_def)
    have p2: "pages st2 = patch_extra pageId ex (pages st1)"
      using indexComments_pages [OF f1 assms(2)] by (simp only: ex2)
    have pages: "pages st2 = pages st1"
      by (simp add: p2 p1 patch_extra_twice)
    have snapshot: "page_extra (pg\<lparr>page_extra := ex\<rparr>) ''comment'' =
                      Some (JArr (map JStr (map c_content (existingComments st pageId))))"
      by (simp add: ex_def)
    from Some pages f1 snapshot show ?thesis by simp
  qed
  from again order existingComments_rows [of st pageId] ties show ?thesis by blast
qed

text \<open>The thread of page 42, indexed twice: both runs leave the snapshot latest, first,
  second; the creation times of the rows are 300, 100 and 100.\<close>

theorem indexComments_twice_witness:
  "findById (pages st_thread) 42 =
     Some (page42\<lparr>page_extra := [''views'' \<mapsto> JNum 7,
                                   ''comment'' \<mapsto> JArr [JStr ''Hello world'']]\<rparr>) \<and>
   pages (snd (indexComments demo_env 42 (snd (indexComments demo_env 42 st_thread)))) =
     pages (snd (indexComments demo_env 42 st_thread)) \<and>
   (\<exists>pg1. findById (pages (snd (indexComments demo_env 42 st_thread))) 42 = Some pg1 \<and>
          findById (pages (snd (indexComments demo_env 42
                                  (snd (indexComments demo_env 42 st_thread))))) 42 = Some pg1 \<and>
          page_extra pg1 ''comment'' =
            Some (JArr [JStr ''latest'', JStr ''first'', JStr ''second''])) \<and>
   map c_createdAt (existingComments st_thread 42) = [300, 100, 100] \<and>
   map c_id (existingComments st_thread 42) = [3, 1, 4]"
proof -
  let ?old = "page42\<lparr>page_extra := [''views'' \<mapsto> JNum 7,
                                      ''comment'' \<mapsto> JArr [JStr ''Hello world'']]\<rparr>"
  have found: "findById (pages st_thread) 42 = Some ?old"
    by (simp add: findById_def st_thread_def page42_def)
  have rows: "map c_content (existingComments st_thread 42) = [''latest'', ''first'', ''second'']"
    "map c_createdAt (existingComments st_thread 42) = [300, 100, 100]"
    "map c_id (existingComments st_thread 42) = [3, 1, 4]"
    by (simp_all add: existingComments_def st_thread_def hello_def)
  from indexComments_twice [OF surjective_pairing surjective_pairing, of demo_env 42 st_thread]
  have same: "pages (snd (indexComments demo_env 42 (snd (indexComments demo_env 42 st_thread)))) =
                pages (snd (indexComments demo_env 42 st_thread))"
    and snap: "\<forall>pg. findById (pages st_thread) 42 = Some pg \<longrightarrow>
            (\<exists>pg1. findById (pages (snd (indexComments demo_env 42 st_thread))) 42 = Some pg1 \<and>
                   findById (pages (snd (indexComments demo_env 42
                                  (snd (indexComments demo_env 42 st_thread))))) 42 = Some pg1 \<and>
                   page_extra pg1 ''comment'' =
                     Some (JArr (map JStr (map c_content (existingComments st_thread 42)))))"
    by blast+
  from snap found obtain pg1 where
    "findById (pages (snd (indexComments demo_env 42 st_thread))) 42 = Some pg1"
    "findById (pages (snd (indexComments demo_env 42
                             (snd (indexComments demo_env 42 st_thread))))) 42 = Some pg1"
    "page_extra pg1 ''comment'' =
       Some (JArr (map JStr (map c_content (existingComments st_thread 42))))"
    by blast
  then have "\<exists>pg1. findById (pages (snd (indexComments demo_env 42 st_thread))) 42 = Some pg1 \<and>
          findById (pages (snd (indexComments demo_env 42
                                  (snd (indexComments demo_env 42 st_thread))))) 42 = Some pg1 \<and>
          page_extra pg1 ''comment'' =
            Some (JArr [JStr ''latest'', JStr ''first'', JStr ''second''])"
    by (simp add: rows)
  with found same rows show ?thesis by blast
qed

text \<open>C8 as stated fails for two comments of equal creation time stored in the order of
  their ids: the snapshot lists the comment with id 1 before the one with id 2.\<close>

theorem indexComments_ties_counterexample:
  "map c_createdAt (existingComments st_ties 42) = [100, 100] \<and>
   map c_id (existingComments st_ties 42) = [1, 2] \<and>
   map c_content (existingComments st_ties 42) = [''first'', ''second''] \<and>
   map (\<lambda>p. page_extra p ''comment'') (pages (snd (indexComments demo_env 42 st_ties))) =
     [Some (JArr [JStr ''first'', JStr ''second''])]"
  by (simp add: example_data effect_defs findById_def)

text \<open>
  C3. What indexComments does for a page without comments. The query's result is an array,
  and an empty array is truthy, so the branch that logs is never taken: nothing is logged,
  the page's comment field is overwritten with the empty list (a snapshot written earlier is
  cleared), and the page is pushed to the search engine like any other.
\<close>

theorem indexComments_without_comments:
  assumes "existingComments st pageId = []"
    and "findById (pages st) pageId = Some pg"
    and "indexComments e pageId st = (r, st')"
  shows "logs st' = logs st \<and>
         pages st' = patch_extra pageId ((page_extra pg)(''comment'' \<mapsto> JArr [])) (pages st) \<and>
         findById (pages st') pageId = Some (pg\<lparr>page_extra := (page_extra pg)(''comment'' \<mapsto> JArr [])\<rparr>) \<and>
         searchIndex st' =
           (case searchEngine_updated e
                   (page.extend (pg\<lparr>page_extra := (page_extra pg)(''comment'' \<mapsto> JArr [])\<rparr>)
                      \<lparr>safeContent = cleanHTML e (page_render pg)\<rparr>) of
              None \<Rightarrow> searchIndex st @
                        [page.extend (pg\<lparr>page_extra := (page_extra pg)(''comment'' \<mapsto> JArr [])\<rparr>)
                           \<lparr>safeContent = cleanHTML e (page_render pg)\<rparr>]
            | Some err \<Rightarrow> searchIndex st)"
proof -
  have pages': "pages st' = patch_extra pageId ((page_extra pg)(''comment'' \<mapsto> JArr [])) (pages st)"
    using indexComments_pages [OF assms(2) assms(3)] by (simp add: assms(1))
  have found': "findById (pages st') pageId =
                  Some (pg\<lparr>page_extra := (page_extra pg)(''comment'' \<mapsto> JArr [])\<rparr>)"
    unfolding pages' using assms(2) by (rule findById_patch_same)
  have run: "indexComments e pageId st =
     (case searchEngine_updated e
             (page.extend (pg\<lparr>page_extra := (page_extra pg)(''comment'' \<mapsto> JArr [])\<rparr>)
                \<lparr>safeContent = cleanHTML e (page_render pg)\<rparr>) of
        Some err \<Rightarrow> (Inl err, st\<lparr>pages := patch_extra pageId ((page_extra pg)(''comment'' \<mapsto> JArr [])) (pages st)\<rparr>)
      | None \<Rightarrow> (Inr (), st\<lparr>pages := patch_extra pageId ((page_extra pg)(''comment'' \<mapsto> JArr [])) (pages st)\<rparr>
             \<lparr>searchIndex := searchIndex st @
               [page.extend (pg\<lparr>page_extra := (page_extra pg)(''comment'' \<mapsto> JArr [])\<rparr>)
                  \<lparr>safeContent = cleanHTML e (page_render pg)\<rparr>]\<rparr>))"
    by (rule indexComments_found [OF assms(2) _ refl refl]) (simp add: assms(1))
  have index: "searchIndex st' =
           (case searchEngine_updated e
                   (page.extend (pg\<lparr>page_extra := (page_extra pg)(''comment'' \<mapsto> JArr [])\<rparr>)
                      \<lparr>safeContent = cleanHTML e (page_render pg)\<rparr>) of
              None \<Rightarrow> searchIndex st @
                        [page.extend (pg\<lparr>page_extra := (page_extra pg)(''comment'' \<mapsto> JArr [])\<rparr>)
                           \<lparr>safeContent = cleanHTML e (page_render pg)\<rparr>]
            | Some err \<Rightarrow> searchIndex st)"
    using assms(3) unfolding run by (auto split: option.splits)
  from indexComments_frame [OF assms(3)] pages' found' index show ?thesis by simp
qed

text \<open>Page 42 has no comment left and a snapshot that lists one: after indexComments the
  snapshot is empty, one document has been pushed to the search engine, and the log is empty.\<close>

theorem indexComments_without_comments_witness:
  "existingComments st_stale 42 = [] \<and>
   map (\<lambda>p. page_extra p ''comment'') (pages st_stale) = [Some (JArr [JStr ''Hello world''])] \<and>
   logs (snd (indexComments demo_env 42 st_stale)) = [] \<and>
   map (\<lambda>p. page_extra p ''comment'') (pages (snd (indexComments demo_env 42 st_stale))) =
     [Some (JArr [])] \<and>
   length (searchIndex (snd (indexComments demo_env 42 st_stale))) = 1"
proof -
  let ?old = "page42\<lparr>page_extra := [''views'' \<mapsto> JNum 7,
                                      ''comment'' \<mapsto> JArr [JStr ''Hello world'']]\<rparr>"
  have none: "existingComments st_stale 42 = []"
    by (simp add: existingComments_def st_stale_def st_one_def)
  have found: "findById (pages st_stale) 42 = Some ?old"
    by (simp add: findById_def st_stale_def st_one_def page42_def)
  have before: "map (\<lambda>p. page_extra p ''comment'') (pages st_stale) =
                  [Some (JArr [JStr ''Hello world''])]"
    by (simp add: st_stale_def st_one_def)
  have accepts: "searchEngine_updated demo_env d = None" for d
    by (simp add: demo_env_def)
  have log: "logs st_stale = []" and idx: "searchIndex st_stale = []"
    and tbl: "pages st_stale = [?old]"
    by (simp_all add: st_stale_def st_one_def)
  from indexComments_without_comments [OF none found surjective_pairing, of demo_env]
  have "logs (snd (indexComments demo_env 42 st_stale)) = []"
    and "pages (snd (indexComments demo_env 42 st_stale)) =
           patch_extra 42 ((page_extra ?old)(''comment'' \<mapsto> JArr [])) [?old]"
    and "length (searchIndex (snd (indexComments demo_env 42 st_stale))) = 1"
    by (simp_all add: accepts log idx tbl)
  then show ?thesis
    using none before by (simp add: patch_extra_def page42_def)
qed

section \<open>The operations and their side effects\<close>

lemma afterInsert_comments:
  assumes "afterInsert e this st = (r, st')"
  shows "comments st' = comments st"
proof (cases "indexComments e (c_pageId this) st")
  case (Pair r1 st1)
  note run = Pair
  show ?thesis
  proof (cases r1)
    case (Inl err)
    with run assms indexComments_frame [OF run] show ?thesis
      by (simp add: afterInsert_def)
  next
    case (Inr u)
    with run assms have "sendNotify e (c_pageId this) (c_content this) (c_email this) st1 = (r, st')"
      by (simp add: afterInsert_def)
    from sendNotify_frame [OF this] indexComments_frame [OF run] show ?thesis by simp
  qed
qed

lemma afterUpdate_comments:
  assumes "afterUpdate getPageIdFromCommentId e found st = (r, st')"
  shows "comments st' = comments st"
proof (cases found)
  case Nil
  with assms show ?thesis by (auto simp add: afterUpdate_def)
next
  case (Cons i others)
  show ?thesis
  proof (cases "getPageIdFromCommentId i st")
    case None
    with Cons assms show ?thesis by (auto simp add: afterUpdate_def)
  next
    case (Some p)
    with Cons assms have "indexComments e p st = (r, st')"
      by (simp add: afterUpdate_def)
    from indexComments_frame [OF this] show ?thesis by simp
  qed
qed

text \<open>
  C1, as the code has it. Neither hook catches or logs what indexComments throws. When
  indexComments fails in \<open>$afterInsert\<close>, the hook ends with that error, sendNotify is not
  called (the outbox is as before) and nothing is logged; the same holds for the static
  afterUpdate hook. The query that ran the hook fails with the same error, so the error
  reaches whoever awaits the insert or the update. The write itself stays: whatever the
  outcome of the hook and of either side effect, the comments table after the query holds the
  inserted row (the updated rows).
\<close>

theorem side_effect_failure_propagates:
  "(indexComments e (c_pageId this) st = (Inl err, st1) \<longrightarrow>
      afterInsert e this st = (Inl err, st1) \<and>
      comments st1 = comments st \<and> outbox st1 = outbox st \<and> logs st1 = logs st) \<and>
   (getPageIdFromCommentId cid st = Some pageId \<and> indexComments e pageId st = (Inl err, st1) \<longrightarrow>
      afterUpdate getPageIdFromCommentId e (cid # rest) st = (Inl err, st1) \<and>
      comments st1 = comments st \<and> outbox st1 = outbox st \<and> logs st1 = logs st) \<and>
   (stored = (beforeInsert (clock st) (clock st + clock_lag st) row)\<lparr>c_id := next_id (comments st)\<rparr> \<and>
    afterInsert e stored (st\<lparr>comments := comments st @ [stored]\<rparr>) = (Inl err, st2) \<longrightarrow>
      query_insert e row st = (Inl err, st2) \<and> comments st2 = comments st @ [stored]) \<and>
   (changed = map (\<lambda>c. if c_id c = cid then beforeUpdate (clock st) (change c) else c) (comments st) \<and>
    afterUpdate getPageIdFromCommentId e (map c_id (filter (\<lambda>c. c_id c = cid) changed))
        (st\<lparr>comments := changed\<rparr>) = (Inl err, st2) \<longrightarrow>
      query_patchById getPageIdFromCommentId e cid change st = (Inl err, st2) \<and>
      comments st2 = changed) \<and>
   comments (snd (query_insert e row st)) =
     comments st @ [(beforeInsert (clock st) (clock st + clock_lag st) row)
                      \<lparr>c_id := next_id (comments st)\<rparr>] \<and>
   comments (snd (query_patchById getPageIdFromCommentId e cid change st)) =
     map (\<lambda>c. if c_id c = cid then beforeUpdate (clock st) (change c) else c) (comments st)"
proof -
  have ins: "afterInsert e this st = (Inl err, st1) \<and>
             comments st1 = comments st \<and> outbox st1 = outbox st \<and> logs st1 = logs st"
    if "indexComments e (c_pageId this) st = (Inl err, st1)"
    using that indexComments_frame [OF that] by (simp add: afterInsert_def)
  have upd: "afterUpdate getPageIdFromCommentId e (cid # rest) st = (Inl err, st1) \<and>
             comments st1 = comments st \<and> outbox st1 = outbox st \<and> logs st1 = logs st"
    if "getPageIdFromCommentId cid st = Some pageId" and "indexComments e pageId st = (Inl err, st1)"
    using that indexComments_frame [OF that(2)] by (simp add: afterUpdate_def)
  have qins: "query_insert e row st = (Inl err, st2) \<and> comments st2 = comments st @ [stored]"
    if "stored = (beforeInsert (clock st) (clock st + clock_lag st) row)\<lparr>c_id := next_id (comments st)\<rparr>"
      and "afterInsert e stored (st\<lparr>comments := comments st @ [stored]\<rparr>) = (Inl err, st2)"
    using that afterInsert_comments [OF that(2)] by (simp add: query_insert_def Let_def)
  have qupd: "query_patchById getPageIdFromCommentId e cid change st = (Inl err, st2) \<and>
              comments st2 = changed"
    if "changed = map (\<lambda>c. if c_id c = cid then beforeUpdate (clock st) (change c) else c) (comments st)"
      and run: "afterUpdate getPageIdFromCommentId e (map c_id (filter (\<lambda>c. c_id c = cid) changed))
                  (st\<lparr>comments := changed\<rparr>) = (Inl err, st2)"
  proof -
    have "comments st2 = changed"
    proof (cases "map c_id (filter (\<lambda>c. c_id c = cid) changed)")
      case Nil
      with run show ?thesis by (auto simp add: afterUpdate_def)
    next
      case (Cons i others)
      show ?thesis
      proof (cases "getPageIdFromCommentId i (st\<lparr>comments := changed\<rparr>)")
        case None
        with Cons run show ?thesis by (auto simp add: afterUpdate_def)
      next
        case (Some p)
        with Cons run have "indexComments e p (st\<lparr>comments := changed\<rparr>) = (Inl err, st2)"
          by (simp add: afterUpdate_def)
        from indexComments_frame [OF this] show ?thesis by simp
      qed
    qed
    with that show ?thesis by (simp add: query_patchById_def Let_def)
  qed
  have keep_ins: "comments (snd (query_insert e row st)) =
     comments st @ [(beforeInsert (clock st) (clock st + clock_lag st) row)
                      \<lparr>c_id := next_id (comments st)\<rparr>]"
  proof -
    let ?row = "(beforeInsert (clock st) (clock st + clock_lag st) row)
                  \<lparr>c_id := next_id (comments st)\<rparr>"
    obtain r' st' where hook: "afterInsert e ?row (st\<lparr>comments := comments st @ [?row]\<rparr>) = (r', st')"
      by (cases "afterInsert e ?row (st\<lparr>comments := comments st @ [?row]\<rparr>)")
    have "snd (query_insert e row st) = st'"
      using hook by (cases r') (simp_all add: query_insert_def Let_def)
    with afterInsert_comments [OF hook] show ?thesis by simp
  qed
  have keep_upd: "comments (snd (query_patchById getPageIdFromCommentId e cid change st)) =
     map (\<lambda>c. if c_id c = cid then beforeUpdate (clock st) (change c) else c) (comments st)"
  proof -
    let ?rows = "map (\<lambda>c. if c_id c = cid then beforeUpdate (clock st) (change c) else c) (comments st)"
    obtain r' st' where
      hook: "afterUpdate getPageIdFromCommentId e (map c_id (filter (\<lambda>c. c_id c = cid) ?rows))
               (st\<lparr>comments := ?rows\<rparr>) = (r', st')"
      by (cases "afterUpdate getPageIdFromCommentId e (map c_id (filter (\<lambda>c. c_id c = cid) ?rows))
               (st\<lparr>comments := ?rows\<rparr>)")
    have "snd (query_patchById getPageIdFromCommentId e cid change st) = st'"
      using hook by (cases r') (simp_all add: query_patchById_def Let_def)
    with afterUpdate_comments [OF hook] show ?thesis by simp
  qed
  from ins upd qins qupd keep_ins keep_upd show ?thesis by blast
qed

text \<open>With a search engine that rejects every update: the hooks and the queries that run them
  fail with the engine's error, no mail is handed to the mailer, and the inserted or changed
  row is in the table (the inserted one with the two readings of the clock, 100 and 101).\<close>

theorem side_effect_failure_propagates_witness:
  "afterInsert failing_env hello st_one =
     (Inl (Rejected ''search engine unreachable''), snd (indexComments failing_env 42 st_one)) \<and>
   afterUpdate db_getPageIdFromCommentId failing_env [1] st_one =
     (Inl (Rejected ''search engine unreachable''), snd (indexComments failing_env 42 st_one)) \<and>
   comments (snd (indexComments failing_env 42 st_one)) = comments st_one \<and>
   outbox (snd (indexComments failing_env 42 st_one)) = outbox st_one \<and>
   logs (snd (indexComments failing_env 42 st_one)) = logs st_one \<and>
   fst (query_insert failing_env hello st_empty) = Inl (Rejected ''search engine unreachable'') \<and>
   comments (snd (query_insert failing_env hello st_empty)) = [hello\<lparr>c_updatedAt := 101\<rparr>] \<and>
   fst (query_patchById db_getPageIdFromCommentId failing_env 1
          (\<lambda>c. c\<lparr>c_content := ''Edited''\<rparr>) st_one) = Inl (Rejected ''search engine unreachable'') \<and>
   comments (snd (query_patchById db_getPageIdFromCommentId failing_env 1
          (\<lambda>c. c\<lparr>c_content := ''Edited''\<rparr>) st_one)) =
     [hello\<lparr>c_content := ''Edited'', c_updatedAt := 200\<rparr>]"
proof -
  let ?err = "Rejected ''search engine unreachable''"
  let ?new = "hello\<lparr>c_updatedAt := 101\<rparr>"
  let ?changed = "map (\<lambda>c. if c_id c = 1 then beforeUpdate (clock st_one) (c\<lparr>c_content := ''Edited''\<rparr>) else c)
                      (comments st_one)"
  have page: "c_pageId hello = 42" by (simp add: hello_def)
  have f1: "fst (indexComments failing_env 42 st_one) = Inl ?err"
    by (simp add: example_data effect_defs findById_def)
  then have h1: "indexComments failing_env (c_pageId hello) st_one =
                   (Inl ?err, snd (indexComments failing_env 42 st_one))"
    using surjective_pairing [of "indexComments failing_env 42 st_one"] by (simp add: page)
  have h2: "db_getPageIdFromCommentId 1 st_one = Some 42"
    by (simp add: db_getPageIdFromCommentId_def st_one_def hello_def)
  have stored: "?new = (beforeInsert (clock st_empty) (clock st_empty + clock_lag st_empty) hello)
                         \<lparr>c_id := next_id (comments st_empty)\<rparr>"
    by (simp add: beforeInsert_def next_id_def st_empty_def hello_def)
  have f3: "fst (afterInsert failing_env ?new (st_empty\<lparr>comments := comments st_empty @ [?new]\<rparr>)) =
              Inl ?err"
    by (simp add: example_data effect_defs findById_def afterInsert_def)
  then have h3: "afterInsert failing_env ?new (st_empty\<lparr>comments := comments st_empty @ [?new]\<rparr>) =
                   (Inl ?err, snd (afterInsert failing_env ?new
                                     (st_empty\<lparr>comments := comments st_empty @ [?new]\<rparr>)))"
    using surjective_pairing
            [of "afterInsert failing_env ?new (st_empty\<lparr>comments := comments st_empty @ [?new]\<rparr>)"]
    by simp
  have changed: "?changed = [hello\<lparr>c_content := ''Edited'', c_updatedAt := 200\<rparr>]"
    by (simp add: st_one_def hello_def beforeUpdate_def)
  have f4: "fst (afterUpdate db_getPageIdFromCommentId failing_env
                   (map c_id (filter (\<lambda>c. c_id c = 1) ?changed)) (st_one\<lparr>comments := ?changed\<rparr>)) =
              Inl ?err"
    by (simp add: example_data effect_defs findById_def afterUpdate_def beforeUpdate_def
          db_getPageIdFromCommentId_def)
  then have h4: "afterUpdate db_getPageIdFromCommentId failing_env
                   (map c_id (filter (\<lambda>c. c_id c = 1) ?changed)) (st_one\<lparr>comments := ?changed\<rparr>) =
                 (Inl ?err, snd (afterUpdate db_getPageIdFromCommentId failing_env
                   (map c_id (filter (\<lambda>c. c_id c = 1) ?changed)) (st_one\<lparr>comments := ?changed\<rparr>)))"
    using surjective_pairing
            [of "afterUpdate db_getPageIdFromCommentId failing_env
                   (map c_id (filter (\<lambda>c. c_id c = 1) ?changed)) (st_one\<lparr>comments := ?changed\<rparr>)"]
    by simp
  note hooks = side_effect_failure_propagates
      [where e = failing_env and this = hello and st = st_one and err = ?err
         and ?st1.0 = "snd (indexComments failing_env 42 st_one)"
         and getPageIdFromCommentId = db_getPageIdFromCommentId and cid = 1 and pageId = 42
         and rest = "[]"
         and changed = ?changed and change = "\<lambda>c. c\<lparr>c_content := ''Edited''\<rparr>"
         and ?st2.0 = "snd (afterUpdate db_getPageIdFromCommentId failing_env
                   (map c_id (filter (\<lambda>c. c_id c = 1) ?changed)) (st_one\<lparr>comments := ?changed\<rparr>))"]
  note inserts = side_effect_failure_propagates
      [where e = failing_env and st = st_empty and err = ?err and stored = ?new and row = hello
         and ?st2.0 = "snd (afterInsert failing_env ?new
                              (st_empty\<lparr>comments := comments st_empty @ [?new]\<rparr>))"]
  have a: "afterInsert failing_env hello st_one =
             (Inl ?err, snd (indexComments failing_env 42 st_one)) \<and>
           comments (snd (indexComments failing_env 42 st_one)) = comments st_one \<and>
           outbox (snd (indexComments failing_env 42 st_one)) = outbox st_one \<and>
           logs (snd (indexComments failing_env 42 st_one)) = logs st_one"
    using hooks h1 by blast
  have b: "afterUpdate db_getPageIdFromCommentId failing_env [1] st_one =
             (Inl ?err, snd (indexComments failing_env 42 st_one))"
    using hooks h1 h2 by (simp add: page)
  have c: "query_patchById db_getPageIdFromCommentId failing_env 1
             (\<lambda>c. c\<lparr>c_content := ''Edited''\<rparr>) st_one =
           (Inl ?err, snd (afterUpdate db_getPageIdFromCommentId failing_env
                   (map c_id (filter (\<lambda>c. c_id c = 1) ?changed)) (st_one\<lparr>comments := ?changed\<rparr>))) \<and>
           comments (snd (afterUpdate db_getPageIdFromCommentId failing_env
                   (map c_id (filter (\<lambda>c. c_id c = 1) ?changed)) (st_one\<lparr>comments := ?changed\<rparr>))) =
             ?changed"
    using hooks h4 by blast
  have d: "query_insert failing_env hello st_empty =
             (Inl ?err, snd (afterInsert failing_env ?new
                               (st_empty\<lparr>comments := comments st_empty @ [?new]\<rparr>))) \<and>
           comments (snd (afterInsert failing_env ?new
                            (st_empty\<lparr>comments := comments st_empty @ [?new]\<rparr>))) =
             comments st_empty @ [?new]"
    using inserts stored h3 by blast
  have e: "comments st_empty @ [?new] = [?new]" by (simp add: st_empty_def)
  from a b c d show ?thesis
    by (simp add: changed e)
qed

text \<open>C1 as stated fails for a create and for an update whose search engine update is
  rejected: the row is stored, the call fails with the search engine's error instead of
  returning the comment, no notification is handed to the mailer and nothing is logged.\<close>

theorem side_effect_failure_counterexample:
  "fst (postNewComment (db_provider failing_env) failing_env 42 0 ''Hello world'' None None alice
          ''10.0.0.1'' st_empty) = Inl (Rejected ''search engine unreachable'') \<and>
   map c_content (comments (snd (postNewComment (db_provider failing_env) failing_env 42 0
          ''Hello world'' None None alice ''10.0.0.1'' st_empty))) = [''Hello world''] \<and>
   outbox (snd (postNewComment (db_provider failing_env) failing_env 42 0
          ''Hello world'' None None alice ''10.0.0.1'' st_empty)) = [] \<and>
   logs (snd (postNewComment (db_provider failing_env) failing_env 42 0
          ''Hello world'' None None alice ''10.0.0.1'' st_empty)) = [] \<and>
   fst (updateComment (db_provider failing_env) failing_env 1 ''Edited'' alice ''10.0.0.1'' st_one) =
     Inl (Rejected ''search engine unreachable'') \<and>
   map c_content (comments (snd (updateComment (db_provider failing_env) failing_env 1 ''Edited''
          alice ''10.0.0.1'' st_one))) = [''Edited'']"
  by (simp add: example_data library_defs operation_defs provider_defs effect_defs)

text \<open>
  C2. updateComment does not look at the content: when the comment resolves to a page the
  user may manage, the call is the provider's update with the content as it was given,
  neither trimmed nor checked for length (postNewComment trims and checks, lines 104-107).
  The result and the new state are the provider's, for every provider.
\<close>

theorem update_forwards_content_unchecked:
  assumes "prov_getPageIdFromCommentId P cid st = Some pageId"
    and "pageId \<noteq> 0"
    and "getPageFromDb st pageId = Some pg"
    and "checkAccess e usr [''manage:comments''] (page_path pg) (page_localeCode pg)"
  shows "updateComment P e cid content usr ip st =
           prov_update P \<lparr>up_id = cid, up_content = content, up_page = pg,
                          up_user = with_ip usr ip\<rparr> st"
  using assms by (simp add: updateComment_def)

text \<open>An update of comment 1 to the empty content succeeds and the empty content is what the
  table holds afterwards.\<close>

theorem update_forwards_content_unchecked_witness:
  "prov_getPageIdFromCommentId (db_provider demo_env) 1 st_one = Some 42 \<and>
   getPageFromDb st_one 42 =
     Some (page42\<lparr>page_extra := [''views'' \<mapsto> JNum 7,
                                   ''comment'' \<mapsto> JArr [JStr ''Hello world'']]\<rparr>) \<and>
   checkAccess demo_env alice [''manage:comments''] ''a'' ''en'' \<and>
   length (trim '''') < 2 \<and>
   fst (updateComment (db_provider demo_env) demo_env 1 '''' alice ''10.0.0.1'' st_one) =
     Inr (hello\<lparr>c_content := '''', c_render := '''', c_updatedAt := 200\<rparr>) \<and>
   map c_content (comments (snd (updateComment (db_provider demo_env) demo_env 1 '''' alice
     ''10.0.0.1'' st_one))) = ['''']"
proof -
  let ?pg = "page42\<lparr>page_extra := [''views'' \<mapsto> JNum 7,
                                     ''comment'' \<mapsto> JArr [JStr ''Hello world'']]\<rparr>"
  have h1: "prov_getPageIdFromCommentId (db_provider demo_env) 1 st_one = Some 42"
    by (simp add: db_provider_def db_getPageIdFromCommentId_def st_one_def hello_def)
  have h2: "(42::int) \<noteq> 0" by simp
  have h3: "getPageFromDb st_one 42 = Some ?pg"
    by (simp add: getPageFromDb_def findById_def st_one_def page42_def)
  have h4: "checkAccess demo_env alice [''manage:comments''] (page_path ?pg) (page_localeCode ?pg)"
    by (simp add: demo_env_def alice_def)
  have h4': "checkAccess demo_env alice [''manage:comments''] ''a'' ''en''"
    by (simp add: demo_env_def alice_def)
  have short: "length (trim '''') < 2" by (simp add: trim_def)
  have run: "updateComment (db_provider demo_env) demo_env 1 '''' alice ''10.0.0.1'' st_one =
               prov_update (db_provider demo_env)
                 \<lparr>up_id = 1, up_content = '''', up_page = ?pg,
                  up_user = with_ip alice ''10.0.0.1''\<rparr> st_one"
    by (rule update_forwards_content_unchecked [OF h1 h2 h3 h4])
  have stored: "fst (prov_update (db_provider demo_env)
                 \<lparr>up_id = 1, up_content = '''', up_page = ?pg,
                  up_user = with_ip alice ''10.0.0.1''\<rparr> st_one) =
                Inr (hello\<lparr>c_content := '''', c_render := '''', c_updatedAt := 200\<rparr>)"
       "map c_content (comments (snd (prov_update (db_provider demo_env)
                 \<lparr>up_id = 1, up_content = '''', up_page = ?pg,
                  up_user = with_ip alice ''10.0.0.1''\<rparr> st_one))) = ['''']"
    by (simp_all add: example_data provider_defs effect_defs findById_def)
  from h1 h3 h4' short stored show ?thesis
    by (simp only: run simp_thms)
qed

text \<open>
  C4. deleteComment ends with the provider's remove: when the comment resolves to a page the
  user may manage, the call is that remove and nothing else, for every provider. The class
  has hooks for insert and update only, so indexComments does not run for a deleted row.
\<close>

theorem delete_is_remove_only:
  assumes "prov_getPageIdFromCommentId P cid st = Some pageId"
    and "pageId \<noteq> 0"
    and "getPageFromDb st pageId = Some pg"
    and "checkAccess e usr [''manage:comments''] (page_path pg) (page_localeCode pg)"
  shows "deleteComment P e cid usr ip st =
           prov_remove P \<lparr>rm_id = cid, rm_page = pg, rm_user = with_ip usr ip\<rparr> st"
  using assms by (simp add: deleteComment_def)

text \<open>After the only comment of page 42 is deleted, the page's snapshot still lists its
  content and nothing has been pushed to the search engine.\<close>

theorem delete_is_remove_only_witness:
  "prov_getPageIdFromCommentId (db_provider demo_env) 1 st_one = Some 42 \<and>
   getPageFromDb st_one 42 =
     Some (page42\<lparr>page_extra := [''views'' \<mapsto> JNum 7,
                                   ''comment'' \<mapsto> JArr [JStr ''Hello world'']]\<rparr>) \<and>
   checkAccess demo_env alice [''manage:comments''] ''a'' ''en'' \<and>
   fst (deleteComment (db_provider demo_env) demo_env 1 alice ''10.0.0.1'' st_one) = Inr () \<and>
   comments (snd (deleteComment (db_provider demo_env) demo_env 1 alice ''10.0.0.1'' st_one)) = [] \<and>
   map (\<lambda>p. page_extra p ''comment'')
     (pages (snd (deleteComment (db_provider demo_env) demo_env 1 alice ''10.0.0.1'' st_one))) =
     [Some (JArr [JStr ''Hello world''])] \<and>
   searchIndex (snd (deleteComment (db_provider demo_env) demo_env 1 alice ''10.0.0.1'' st_one)) = []"
proof -
  let ?pg = "page42\<lparr>page_extra := [''views'' \<mapsto> JNum 7,
                                     ''comment'' \<mapsto> JArr [JStr ''Hello world'']]\<rparr>"
  have h1: "prov_getPageIdFromCommentId (db_provider demo_env) 1 st_one = Some 42"
    by (simp add: db_provider_def db_getPageIdFromCommentId_def st_one_def hello_def)
  have h2: "(42::int) \<noteq> 0" by simp
  have h3: "getPageFromDb st_one 42 = Some ?pg"
    by (simp add: getPageFromDb_def findById_def st_one_def page42_def)
  have h4: "checkAccess demo_env alice [''manage:comments''] (page_path ?pg) (page_localeCode ?pg)"
    by (simp add: demo_env_def alice_def)
  have h4': "checkAccess demo_env alice [''manage:comments''] ''a'' ''en''"
    by (simp add: demo_env_def alice_def)
  have run: "deleteComment (db_provider demo_env) demo_env 1 alice ''10.0.0.1'' st_one =
               prov_remove (db_provider demo_env)
                 \<lparr>rm_id = 1, rm_page = ?pg, rm_user = with_ip alice ''10.0.0.1''\<rparr> st_one"
    by (rule delete_is_remove_only [OF h1 h2 h3 h4])
  have after:
    "fst (prov_remove (db_provider demo_env)
            \<lparr>rm_id = 1, rm_page = ?pg, rm_user = with_ip alice ''10.0.0.1''\<rparr> st_one) = Inr ()"
    "comments (snd (prov_remove (db_provider demo_env)
            \<lparr>rm_id = 1, rm_page = ?pg, rm_user = with_ip alice ''10.0.0.1''\<rparr> st_one)) = []"
    "map (\<lambda>p. page_extra p ''comment'') (pages (snd (prov_remove (db_provider demo_env)
            \<lparr>rm_id = 1, rm_page = ?pg, rm_user = with_ip alice ''10.0.0.1''\<rparr> st_one))) =
       [Some (JArr [JStr ''Hello world''])]"
    "searchIndex (snd (prov_remove (db_provider demo_env)
            \<lparr>rm_id = 1, rm_page = ?pg, rm_user = with_ip alice ''10.0.0.1''\<rparr> st_one)) = []"
    by (simp_all add: db_provider_def db_remove_def query_deleteById_def st_one_def hello_def)
  from h1 h3 h4' after show ?thesis
    by (simp only: run simp_thms)
qed

end
